theory Spec2Isabelle
  imports Main "HOL-Library.Word"
begin

section \<open>The storage deal client of go-filecoin (protocol/storage/client.go)\<close>

text \<open>
  A shallow embedding of the storage client: \<open>ProposeDeal\<close>, \<open>recordResponse\<close>,
  \<open>checkDealResponse\<close>, \<open>minerForProposal\<close>, \<open>QueryDeal\<close>, \<open>loadDeals\<close>, \<open>saveDeal\<close>,
  \<open>LoadVouchersForDeal\<close>, \<open>NewClient\<close> and \<open>ClientNodeImpl.MakeProtocolRequest\<close>.
  Go's \<open>(value, error)\<close> results are sums with the error on the left; the mutable
  \<open>Client\<close> is passed in and returned; the collaborators behind the interfaces
  \<open>clientNode\<close>, \<open>clientPorcelainAPI\<close> and \<open>repo.Datastore\<close> are the fields of an
  environment record. The mutex \<open>dealsLk\<close> is not modelled: every operation runs alone.
\<close>

subsection \<open>Values\<close>

type_synonym uint64 = "64 word"

datatype cid = Cid string

datatype address = Address string

datatype peer_ID = PeerID string

text \<open>
  The protocol ids \<open>makeDealProtocol\<close> and \<open>queryDealProtocol\<close> are constants of the
  package declared outside src: two distinct ids among all the others.
\<close>

datatype protocol_ID = makeDealProtocol | queryDealProtocol | Protocol string

datatype Key = KeyWithNamespaces "string list"

text \<open>
  Go errors. \<open>ErrNotSupported\<close> is the sentinel \<open>multistream.ErrNotSupported\<close>, which the
  code compares by identity; \<open>New\<close> stands for \<open>errors.New\<close>, \<open>fmt.Errorf\<close> and
  \<open>errors.Errorf\<close> (the formatted message) and for the errors of the collaborators;
  \<open>Wrap\<close> is \<open>errors.Wrap\<close>.
\<close>

datatype error = ErrNotSupported | New string | Wrap error string

text \<open>
  Modelled from the spec: \<open>deal.State\<close> is declared outside src; the spec names the
  states Accepted, Rejected, Failed and Unknown/invalid. \<open>Invalid n\<close> is any other
  value a response may carry.
\<close>

datatype State = Unknown | Rejected | Accepted | Failed | Invalid nat

text \<open>
  Modelled from the spec: \<open>address.Address.Empty\<close> is declared outside src; the empty
  address is the zero value.
\<close>

definition Empty :: "address \<Rightarrow> bool" where
  "Empty a = (a = Address [])"

text \<open>The value \<open>ConfigGet\<close> returns is an \<open>interface{}\<close>: an address or something else.\<close>

datatype config_value = AddressValue address | OtherValue string

record PaymentInfo =
  Channel :: nat
  ChannelMsgCid :: string
  Vouchers :: "string list"

record Proposal =
  PieceRef :: cid
  Size :: nat
  TotalPrice :: int
  Duration :: uint64
  MinerAddress :: address
  Payment :: PaymentInfo
  LastDuplicate :: string

record Response =
  State :: State
  Message :: string
  ProposalCid :: cid

record Deal =
  Miner :: address
  Proposal :: Proposal
  Response :: Response

record QueryRequest =
  QueryCid :: cid

datatype request = ProposalRequest Proposal | QueryRequestMsg QueryRequest

record Ask =
  Price :: int

record CreatePaymentsParams =
  From :: address
  To :: address
  Value :: int
  PaymentDuration :: uint64
  PaymentInterval :: int
  ChannelExpiry :: int
  GasPrice :: int
  GasLimit :: int

record CreatePaymentsReturn =
  ReturnChannel :: nat
  ReturnChannelMsgCid :: cid
  ReturnVouchers :: "string list"

text \<open>The calls made through the interfaces \<open>clientNode\<close> and \<open>clientPorcelainAPI\<close>.\<close>

datatype call =
    CallGetFileSize cid
  | CallMakeProtocolRequest protocol_ID peer_ID request
  | CallConfigGet string
  | CallChainBlockHeight
  | CallCreatePayments CreatePaymentsParams
  | CallMinerGetAsk address uint64
  | CallMinerGetOwnerAddress address
  | CallMinerGetPeerID address
  | CallDealsLs

text \<open>
  The \<open>Client\<close> struct: the in-memory map \<open>deals\<close> and the datastore \<open>dealsDs\<close>. The
  field \<open>calls\<close> is not in the source: it lists, oldest first, the calls the client
  has made through its two interfaces.
\<close>

record Client =
  deals :: "cid \<rightharpoonup> Deal"
  dealsDs :: "Key \<rightharpoonup> string"
  calls :: "call list"

text \<open>
  The collaborators. \<open>DealsLs\<close> gives what the producer behind the two channels sends:
  the stored deals, one after the other on the first channel, then an error or nil on
  the second. \<open>Put\<close> returns the error or nil and the datastore it leaves behind.
  \<open>ToCid\<close> is \<open>convert.ToCid\<close>, \<open>String\<close> is \<open>cid.Cid.String\<close>, \<open>DumpObject\<close> is
  \<open>cbor.DumpObject\<close>, \<open>StateString\<close> the text of a \<open>deal.State\<close> and
  \<open>ClientDatastorePrefix\<close> the constant of package \<open>deal\<close>: none of them is under src.
\<close>

record env =
  GetFileSize :: "cid \<Rightarrow> error + uint64"
  MakeProtocolRequest :: "protocol_ID \<Rightarrow> peer_ID \<Rightarrow> request \<Rightarrow> error + Response"
  ConfigGet :: "string \<Rightarrow> error + config_value"
  ChainBlockHeight :: "error + int"
  CreatePayments :: "CreatePaymentsParams \<Rightarrow> error + CreatePaymentsReturn"
  MinerGetAsk :: "address \<Rightarrow> uint64 \<Rightarrow> error + Ask"
  MinerGetOwnerAddress :: "address \<Rightarrow> error + address"
  MinerGetPeerID :: "address \<Rightarrow> error + peer_ID"
  DealsLs :: "Deal list \<times> error option"
  Put :: "(Key \<rightharpoonup> string) \<Rightarrow> Key \<Rightarrow> string \<Rightarrow> error option \<times> (Key \<rightharpoonup> string)"
  ToCid :: "Proposal \<Rightarrow> error + cid"
  String :: "cid \<Rightarrow> string"
  DumpObject :: "Deal \<Rightarrow> error + string"
  StateString :: "State \<Rightarrow> string"
  ClientDatastorePrefix :: string

definition called :: "call \<Rightarrow> Client \<Rightarrow> Client" where
  "called c smc = smc\<lparr>calls := calls smc @ [c]\<rparr>"

subsection \<open>Constants\<close>

definition ErrDuplicateDeal :: "8 word" where
  "ErrDuplicateDeal = 1"

definition Errors :: "8 word \<rightharpoonup> error" where
  "Errors = [ErrDuplicateDeal \<mapsto>
     New ''proposal is a duplicate of existing deal; if you would like to create a duplicate, add the --allow-duplicates flag'']"

definition VoucherInterval :: int where
  "VoucherInterval = 1000"

definition ChannelExpiryBuffer :: uint64 where
  "ChannelExpiryBuffer = 2000"

definition CreateChannelGasPrice :: int where
  "CreateChannelGasPrice = 0"

definition CreateChannelGasLimit :: int where
  "CreateChannelGasLimit = 300"

subsection \<open>Big integers\<close>

text \<open>
  \<open>int64(x)\<close> reads the 64 bits of a \<open>uint64\<close> as two's complement; \<open>big.NewInt\<close> makes
  that an unbounded integer. Modelled from the spec: \<open>AttoFIL.MulBigInt\<close> and
  \<open>BlockHeight.Add\<close> are declared outside src; they multiply and add unbounded integers.
\<close>

definition int64 :: "uint64 \<Rightarrow> int" where
  "int64 x = sint x"

definition NewInt :: "int \<Rightarrow> int" where
  "NewInt x = x"

definition MulBigInt :: "int \<Rightarrow> int \<Rightarrow> int" where
  "MulBigInt z x = z * x"

definition NewBlockHeight :: "uint64 \<Rightarrow> int" where
  "NewBlockHeight x = uint x"

definition NewBytesAmount :: "uint64 \<Rightarrow> nat" where
  "NewBytesAmount x = unat x"

subsection \<open>The deal store\<close>

definition saveDeal :: "env \<Rightarrow> Client \<Rightarrow> cid \<Rightarrow> error option \<times> Client" where
  "saveDeal E smc c =
     (case deals smc c of
        None \<Rightarrow> (Some (New (''Could not find client deal with cid: '' @ String E c)), smc)
      | Some storageDeal \<Rightarrow>
          (case DumpObject E storageDeal of
             Inl err \<Rightarrow> (Some (Wrap err ''could not marshal storageDeal''), smc)
           | Inr datum \<Rightarrow>
               (let key = KeyWithNamespaces [ClientDatastorePrefix E, String E c];
                    (err, ds) = Put E (dealsDs smc) key datum;
                    smc = smc\<lparr>dealsDs := ds\<rparr>
                in case err of
                     Some err \<Rightarrow>
                       (Some (Wrap err
                          ''could not save client deal to disk, in-memory deals differ from persisted deals!''),
                        smc)
                   | None \<Rightarrow> (None, smc))))"

definition recordResponse ::
  "env \<Rightarrow> Client \<Rightarrow> Response \<Rightarrow> address \<Rightarrow> Proposal \<Rightarrow> cid \<Rightarrow> error option \<times> Client" where
  "recordResponse E smc resp miner p proposalCid =
     (case deals smc proposalCid of
        Some _ \<Rightarrow>
          (Some (New (''deal ['' @ String E proposalCid @ ''] is already in progress'')), smc)
      | None \<Rightarrow>
          saveDeal E
            (smc\<lparr>deals := (deals smc)(proposalCid \<mapsto>
                    \<lparr>Miner = miner, Proposal = p, Response = resp\<rparr>)\<rparr>)
            proposalCid)"

definition checkDealResponse :: "env \<Rightarrow> Response \<Rightarrow> error option" where
  "checkDealResponse E resp =
     (case State resp of
        Rejected \<Rightarrow> Some (New (''deal rejected: '' @ Message resp))
      | Failed \<Rightarrow> Some (New (''deal failed: '' @ Message resp))
      | Accepted \<Rightarrow> None
      | _ \<Rightarrow> Some (New (''invalid proposal response: '' @ StateString E (State resp))))"

definition minerForProposal :: "env \<Rightarrow> Client \<Rightarrow> cid \<Rightarrow> error + address" where
  "minerForProposal E smc c =
     (case deals smc c of
        None \<Rightarrow> Inl (New (''no such proposal by cid: '' @ String E c))
      | Some st \<Rightarrow> Inr (Miner st))"

text \<open>
  \<open>loadDeals\<close> has one \<open>select\<close> over the two channels of \<open>DealsLs\<close> and no loop around
  it: it receives whatever the producer sends first. That is the first stored deal when
  there is one, and the error or nil when there is none.
\<close>

definition loadDeals :: "env \<Rightarrow> Client \<Rightarrow> error option \<times> Client" where
  "loadDeals E smc =
     (let smc = smc\<lparr>deals := Map.empty\<rparr>;
          smc = called CallDealsLs smc
      in case DealsLs E of
           (storageDeal # _, _) \<Rightarrow>
             (None, smc\<lparr>deals := (deals smc)(ProposalCid (Response storageDeal) \<mapsto> storageDeal)\<rparr>)
         | ([], errOrNil) \<Rightarrow> (errOrNil, smc))"

definition NewClient :: "env \<Rightarrow> (Key \<rightharpoonup> string) \<Rightarrow> error + Client" where
  "NewClient E ds =
     (let smc = \<lparr>deals = Map.empty, dealsDs = ds, calls = []\<rparr>
      in case loadDeals E smc of
           (Some err, _) \<Rightarrow> Inl (Wrap err ''failed to load client deals'')
         | (None, smc) \<Rightarrow> Inr smc)"

definition LoadVouchersForDeal :: "env \<Rightarrow> Client \<Rightarrow> cid \<Rightarrow> (string list \<times> error option) \<times> Client" where
  "LoadVouchersForDeal E smc dealCid =
     (let results = [];
          smc = called CallDealsLs smc
      in case DealsLs E of
           (storageDeal # _, _) \<Rightarrow>
             (if ProposalCid (Response storageDeal) = dealCid
              then ((results @ Vouchers (Payment (Proposal storageDeal)), None), smc)
              else ((results, None), smc))
         | ([], errOrNil) \<Rightarrow> ((results, errOrNil), smc))"

subsection \<open>Querying a deal\<close>

definition QueryDeal :: "env \<Rightarrow> Client \<Rightarrow> cid \<Rightarrow> (error + Response) \<times> Client" where
  "QueryDeal E smc proposalCid =
     (case minerForProposal E smc proposalCid of
        Inl err \<Rightarrow> (Inl err, smc)
      | Inr mineraddr \<Rightarrow>
          (let smc = called (CallMinerGetPeerID mineraddr) smc
           in case MinerGetPeerID E mineraddr of
                Inl err \<Rightarrow> (Inl err, smc)
              | Inr minerpid \<Rightarrow>
                  (let q = QueryRequestMsg \<lparr>QueryCid = proposalCid\<rparr>;
                       smc = called (CallMakeProtocolRequest queryDealProtocol minerpid q) smc
                   in case MakeProtocolRequest E queryDealProtocol minerpid q of
                        Inl err \<Rightarrow> (Inl (Wrap err ''error querying deal''), smc)
                      | Inr resp \<Rightarrow> (Inr resp, smc))))"

subsection \<open>Proposing a deal\<close>

text \<open>
  The loop \<open>for ; isDuplicate; _, isDuplicate = smc.deals[proposalCid]\<close> of
  \<open>ProposeDeal\<close>. The source gives it no bound, so it is a partial function: \<open>None\<close>
  is a loop that never ends. It returns the error of a failed \<open>ToCid\<close>, or the
  proposal and its cid at the exit.
\<close>

partial_function (option) duplicateLoop ::
  "env \<Rightarrow> (cid \<rightharpoonup> Deal) \<Rightarrow> bool \<Rightarrow> Proposal \<Rightarrow> cid \<Rightarrow> (error + Proposal \<times> cid) option" where
  "duplicateLoop E ds isDuplicate proposal proposalCid =
     (if isDuplicate
      then (let proposal = proposal\<lparr>LastDuplicate := String E proposalCid\<rparr>
            in case ToCid E proposal of
                 Inl err \<Rightarrow> Some (Inl (Wrap err ''failed to get cid of proposal''))
               | Inr proposalCid \<Rightarrow>
                   duplicateLoop E ds (ds proposalCid \<noteq> None) proposal proposalCid)
      else Some (Inr (proposal, proposalCid)))"

declare duplicateLoop.simps [code]

definition ProposeDeal ::
  "env \<Rightarrow> Client \<Rightarrow> address \<Rightarrow> cid \<Rightarrow> uint64 \<Rightarrow> uint64 \<Rightarrow> bool \<Rightarrow>
     ((error + Response) \<times> Client) option" where
  "ProposeDeal E smc miner data askID duration allowDuplicates =
     (let smc = called (CallGetFileSize data) smc
      in case GetFileSize E data of
        Inl err \<Rightarrow> Some (Inl (Wrap err ''failed to determine the size of the data''), smc)
      | Inr size' \<Rightarrow>
     (let smc = called (CallMinerGetAsk miner askID) smc
      in case MinerGetAsk E miner askID of
        Inl err \<Rightarrow> Some (Inl (Wrap err ''failed to get ask price''), smc)
      | Inr ask \<Rightarrow>
     (let price = Price ask;
          smc = called CallChainBlockHeight smc
      in case ChainBlockHeight E of
        Inl err \<Rightarrow> Some (Inl err, smc)
      | Inr chainHeight \<Rightarrow>
     (let smc = called (CallConfigGet ''wallet.defaultAddress'') smc
      in case ConfigGet E ''wallet.defaultAddress'' of
        Inl err \<Rightarrow> Some (Inl err, smc)
      | Inr from \<Rightarrow>
     (let (fromAddress, ok) =
            (case from of AddressValue a \<Rightarrow> (a, True) | OtherValue _ \<Rightarrow> (Address [], False))
      in if \<not> ok \<or> Empty fromAddress
         then Some (Inl (New ''Default wallet address is not set correctly''), smc)
         else
     (let smc = called (CallMinerGetOwnerAddress miner) smc
      in case MinerGetOwnerAddress E miner of
        Inl err \<Rightarrow> Some (Inl err, smc)
      | Inr minerOwner \<Rightarrow>
     (let totalPrice = MulBigInt price (NewInt (int64 (size' * duration)));
          proposal = \<lparr>PieceRef = data, Size = NewBytesAmount size', TotalPrice = totalPrice,
                      Duration = duration, MinerAddress = miner,
                      Payment = \<lparr>Channel = 0, ChannelMsgCid = [], Vouchers = []\<rparr>,
                      LastDuplicate = []\<rparr>
      in case ToCid E proposal of
        Inl err \<Rightarrow> Some (Inl (Wrap err ''failed to get cid of proposal''), smc)
      | Inr proposalCid \<Rightarrow>
     (let isDuplicate = (deals smc proposalCid \<noteq> None)
      in if isDuplicate \<and> \<not> allowDuplicates
         then Some (Inl (the (Errors ErrDuplicateDeal)), smc)
         else
     (case duplicateLoop E (deals smc) isDuplicate proposal proposalCid of
        None \<Rightarrow> None
      | Some (Inl err) \<Rightarrow> Some (Inl err, smc)
      | Some (Inr (proposal, proposalCid)) \<Rightarrow>
     (let params = \<lparr>From = fromAddress, To = minerOwner,
                    Value = MulBigInt price (NewInt (int64 (size' * duration))),
                    PaymentDuration = duration, PaymentInterval = VoucherInterval,
                    ChannelExpiry = chainHeight + NewBlockHeight (duration + ChannelExpiryBuffer),
                    GasPrice = NewInt CreateChannelGasPrice,
                    GasLimit = CreateChannelGasLimit\<rparr>;
          smc = called (CallCreatePayments params) smc
      in case CreatePayments E params of
        Inl err \<Rightarrow> Some (Inl err, smc)
      | Inr cpResp \<Rightarrow>
     (let proposal = proposal\<lparr>Payment := (Payment proposal)\<lparr>
                       Channel := ReturnChannel cpResp,
                       ChannelMsgCid := String E (ReturnChannelMsgCid cpResp),
                       Vouchers := ReturnVouchers cpResp\<rparr>\<rparr>;
          smc = called (CallMinerGetPeerID miner) smc
      in case MinerGetPeerID E miner of
        Inl err \<Rightarrow> Some (Inl err, smc)
      | Inr pid \<Rightarrow>
     (let smc = called (CallMakeProtocolRequest makeDealProtocol pid (ProposalRequest proposal)) smc
      in case MakeProtocolRequest E makeDealProtocol pid (ProposalRequest proposal) of
        Inl err \<Rightarrow> Some (Inl (Wrap err ''error sending proposal''), smc)
      | Inr response \<Rightarrow>
     (case checkDealResponse E response of
        Some err \<Rightarrow> Some (Inl (Wrap err ''response check failed''), smc)
      | None \<Rightarrow>
     (case recordResponse E smc response miner proposal proposalCid of
        (Some err, smc) \<Rightarrow> Some (Inl (Wrap err ''failed to track response''), smc)
      | (None, smc) \<Rightarrow> Some (Inr response, smc)))))))))))))))"

subsection \<open>The protocol exchange of \<open>ClientNodeImpl\<close>\<close>

text \<open>
  The libp2p host behind \<open>ClientNodeImpl\<close>: opening a stream, writing the request on
  it and reading the response from it. A stream is named by a number.
\<close>

record ClientNodeImpl =
  NewStream :: "peer_ID \<Rightarrow> protocol_ID \<Rightarrow> error + nat"
  WriteMsg :: "nat \<Rightarrow> request \<Rightarrow> error option"
  ReadMsg :: "nat \<Rightarrow> error + Response"

definition ClientNodeImpl_MakeProtocolRequest ::
  "ClientNodeImpl \<Rightarrow> protocol_ID \<Rightarrow> peer_ID \<Rightarrow> request \<Rightarrow> error + Response" where
  "ClientNodeImpl_MakeProtocolRequest cni protocol peer req =
     (case NewStream cni peer protocol of
        Inl err \<Rightarrow>
          (if err = ErrNotSupported
           then Inl (New ''could not establish connection with peer. Peer does not support protocol'')
           else Inl (Wrap err ''failed to establish connection with the peer''))
      | Inr s \<Rightarrow>
          (case WriteMsg cni s req of
             Some err \<Rightarrow> Inl (Wrap err ''failed to write request'')
           | None \<Rightarrow>
               (case ReadMsg cni s of
                  Inl err \<Rightarrow> Inl (Wrap err ''failed to read response'')
                | Inr response \<Rightarrow> Inr response)))"

subsection \<open>Example collaborators and clients\<close>

text \<open>
  A miner asking 10 per byte and height for a file of 5 bytes, at chain height 100. The
  example hash of a proposal is \<open>h\<close> followed by its \<open>LastDuplicate\<close>; the text of a cid is
  \<open>b\<close> followed by its bytes.
\<close>

definition exampleEnv :: env where
  "exampleEnv =
     \<lparr>GetFileSize = (\<lambda>_. Inr 5),
      MakeProtocolRequest =
        (\<lambda>_ _ _. Inr \<lparr>State = Accepted, Message = [], ProposalCid = Cid ''h''\<rparr>),
      ConfigGet = (\<lambda>_. Inr (AddressValue (Address ''client''))),
      ChainBlockHeight = Inr 100,
      CreatePayments =
        (\<lambda>_. Inr \<lparr>ReturnChannel = 1, ReturnChannelMsgCid = Cid ''m'',
                    ReturnVouchers = [''v1'']\<rparr>),
      MinerGetAsk = (\<lambda>_ _. Inr \<lparr>Price = 10\<rparr>),
      MinerGetOwnerAddress = (\<lambda>_. Inr (Address ''owner'')),
      MinerGetPeerID = (\<lambda>_. Inr (PeerID ''peer'')),
      DealsLs = ([], None),
      Put = (\<lambda>ds k v. (None, ds(k \<mapsto> v))),
      ToCid = (\<lambda>p. Inr (Cid (CHR ''h'' # LastDuplicate p))),
      String = (\<lambda>c. case c of Cid s \<Rightarrow> CHR ''b'' # s),
      DumpObject = (\<lambda>_. Inr ''cbor''),
      StateString = (\<lambda>_. ''state''),
      ClientDatastorePrefix = ''client''\<rparr>"

definition respondingEnv :: "State \<Rightarrow> env" where
  "respondingEnv st =
     exampleEnv\<lparr>MakeProtocolRequest :=
       (\<lambda>_ _ _. Inr \<lparr>State = st, Message = ''no space'', ProposalCid = Cid ''h''\<rparr>)\<rparr>"

definition fullDiskEnv :: env where
  "fullDiskEnv = exampleEnv\<lparr>Put := (\<lambda>ds k v. (Some (New ''disk full''), ds))\<rparr>"

definition largeFileEnv :: env where
  "largeFileEnv = exampleEnv\<lparr>GetFileSize := (\<lambda>_. Inr 4294967296)\<rparr>"

definition exampleProposal :: Proposal where
  "exampleProposal =
     \<lparr>PieceRef = Cid ''data'', Size = 5, TotalPrice = 150, Duration = 3,
      MinerAddress = Address ''miner'',
      Payment = \<lparr>Channel = 0, ChannelMsgCid = [], Vouchers = []\<rparr>,
      LastDuplicate = []\<rparr>"

definition exampleResponse :: Response where
  "exampleResponse = \<lparr>State = Accepted, Message = [], ProposalCid = Cid ''h''\<rparr>"

definition exampleDeal :: Deal where
  "exampleDeal =
     \<lparr>Miner = Address ''miner'', Proposal = exampleProposal, Response = exampleResponse\<rparr>"

definition secondDeal :: Deal where
  "secondDeal =
     \<lparr>Miner = Address ''miner2'', Proposal = exampleProposal,
      Response = \<lparr>State = Accepted, Message = [], ProposalCid = Cid ''second''\<rparr>\<rparr>"

definition twoDealsEnv :: env where
  "twoDealsEnv = exampleEnv\<lparr>DealsLs := ([exampleDeal, secondDeal], None)\<rparr>"

definition emptyClient :: Client where
  "emptyClient = \<lparr>deals = Map.empty, dealsDs = Map.empty, calls = []\<rparr>"

definition oneDealClient :: Client where
  "oneDealClient = \<lparr>deals = [Cid ''h'' \<mapsto> exampleDeal], dealsDs = Map.empty, calls = []\<rparr>"



definition fullDiskAcceptingEnv :: env where
  "fullDiskAcceptingEnv =
     (respondingEnv Accepted)\<lparr>Put := (\<lambda>ds k v. (Some (New ''disk full''), ds))\<rparr>"

definition unsupportedNode :: ClientNodeImpl where
  "unsupportedNode =
     \<lparr>NewStream = (\<lambda>_ _. Inl ErrNotSupported), WriteMsg = (\<lambda>_ _. None),
      ReadMsg = (\<lambda>_. Inr exampleResponse)\<rparr>"

definition unreachableNode :: ClientNodeImpl where
  "unreachableNode =
     \<lparr>NewStream = (\<lambda>_ _. Inl (New ''dial backoff'')), WriteMsg = (\<lambda>_ _. None),
      ReadMsg = (\<lambda>_. Inr exampleResponse)\<rparr>"

definition brokenWriteNode :: ClientNodeImpl where
  "brokenWriteNode =
     \<lparr>NewStream = (\<lambda>_ _. Inr 1), WriteMsg = (\<lambda>_ _. Some (New ''stream reset'')),
      ReadMsg = (\<lambda>_. Inr exampleResponse)\<rparr>"

definition brokenReadNode :: ClientNodeImpl where
  "brokenReadNode =
     \<lparr>NewStream = (\<lambda>_ _. Inr 1), WriteMsg = (\<lambda>_ _. None),
      ReadMsg = (\<lambda>_. Inl (New ''unexpected EOF''))\<rparr>"

section \<open>Properties\<close>

subsection \<open>Auxiliary facts\<close>

lemma Errors_ErrDuplicateDeal:
  "Errors ErrDuplicateDeal =
     Some (New ''proposal is a duplicate of existing deal; if you would like to create a duplicate, add the --allow-duplicates flag'')"
  by (simp add: Errors_def)

lemma recordResponse_keeps:
  "deals smc k = Some d \<Longrightarrow> deals (snd (recordResponse E smc resp miner p c)) k = Some d"
  by (auto simp: recordResponse_def saveDeal_def Let_def
      split: option.splits sum.splits prod.splits)

text \<open>The loop leaves only at a cid that is not a key of the map.\<close>

lemma duplicateLoop_exit_aux:
  assumes "duplicateLoop E ds b p c = Some r"
  shows "\<forall>p' c'. r = Inr (p', c') \<longrightarrow> b = (ds c \<noteq> None) \<longrightarrow> ds c' = None"
  by (rule duplicateLoop.raw_induct
        [where P = "\<lambda>E ds b p c r.
                      \<forall>p' c'. r = Inr (p', c') \<longrightarrow> b = (ds c \<noteq> None) \<longrightarrow> ds c' = None",
         OF _ assms])
     (auto simp: Let_def split: if_splits sum.splits)

lemma duplicateLoop_exit:
  "duplicateLoop E ds (ds c \<noteq> None) p c = Some (Inr (p', c')) \<Longrightarrow> ds c' = None"
  using duplicateLoop_exit_aux by blast

lemma ProposeDeal_keeps:
  assumes "ProposeDeal E smc miner data askID duration allowDuplicates = Some (r, smc')"
    and "deals smc k = Some d"
  shows "deals smc' k = Some d"
proof -
  have rec: "\<And>s resp p c e s'. deals s k = Some d \<Longrightarrow>
      recordResponse E s resp miner p c = (e, s') \<Longrightarrow> deals s' k = Some d"
    using recordResponse_keeps by (metis snd_conv)
  show ?thesis
    using assms
    by (auto simp: ProposeDeal_def called_def Let_def
        split: sum.splits if_splits option.splits prod.splits config_value.splits
        dest!: rec [rotated])
qed




text \<open>
  The product \<open>size * duration\<close> is a \<open>uint64\<close>, converted by \<open>int64\<close>: it is the
  mathematical product only below \<open>2 ^ 63\<close>.
\<close>

lemma int64_mult_exact:
  fixes a b :: uint64
  assumes "uint a * uint b < 2 ^ 63"
  shows "int64 (a * b) = uint a * uint b"
proof -
  have nonneg: "0 \<le> uint a * uint b"
    by simp
  have "uint a * uint b < 2 ^ 64"
    using assms by simp
  then have u: "uint (a * b) = uint a * uint b"
    using nonneg by (simp add: uint_word_ariths)
  have "sint (a * b) = signed_take_bit 63 (uint (a * b))"
    by (simp add: sint_uint)
  also have "\<dots> = uint a * uint b"
  proof -
    have "- (2 ^ 63) \<le> (0 :: int)"
      by simp
    then have lo: "- (2 ^ 63) \<le> uint a * uint b"
      using nonneg by (rule order_trans)
    show ?thesis
      unfolding u using lo assms by (rule signed_take_bit_int_eq_self)
  qed
  finally show ?thesis
    by (simp add: int64_def)
qed

lemma ProposeDeal_totalPrice_example:
  "\<exists>smc'. ProposeDeal exampleEnv emptyClient (Address ''miner'') (Cid ''data'') 7 3 False =
             Some (Inr exampleResponse, smc')
     \<and> map_option (TotalPrice \<circ> Proposal) (deals smc' (Cid ''h'')) = Some 150"
  by (simp add: ProposeDeal_def exampleEnv_def emptyClient_def exampleResponse_def
      called_def Let_def Empty_def duplicateLoop.simps checkDealResponse_def recordResponse_def
      saveDeal_def MulBigInt_def NewInt_def int64_def NewBytesAmount_def)


subsection \<open>Duplicate proposals\<close>

text \<open>
  C3. When the first five lookups of \<open>ProposeDeal\<close> succeed, the cid of the proposal it
  builds is already a key of \<open>deals\<close> and \<open>allowDuplicates\<close> is false, the call returns
  the error \<open>Errors[ErrDuplicateDeal]\<close>, whose message names the flag
  \<open>--allow-duplicates\<close>. The calls it has made by then are the five lookups: neither
  \<open>CreatePayments\<close> nor \<open>MakeProtocolRequest\<close> is among them, and the deal store is as
  it was.
\<close>

theorem ProposeDeal_rejects_duplicate:
  assumes "GetFileSize E data = Inr size'"
    and "MinerGetAsk E miner askID = Inr ask"
    and "ChainBlockHeight E = Inr chainHeight"
    and "ConfigGet E ''wallet.defaultAddress'' = Inr (AddressValue fromAddress)"
    and "\<not> Empty fromAddress"
    and "MinerGetOwnerAddress E miner = Inr minerOwner"
    and "proposal =
           \<lparr>PieceRef = data, Size = NewBytesAmount size',
            TotalPrice = MulBigInt (Price ask) (NewInt (int64 (size' * duration))),
            Duration = duration, MinerAddress = miner,
            Payment = \<lparr>Channel = 0, ChannelMsgCid = [], Vouchers = []\<rparr>,
            LastDuplicate = []\<rparr>"
    and "ToCid E proposal = Inr proposalCid"
    and "deals smc proposalCid = Some d"
  shows "ProposeDeal E smc miner data askID duration False =
           Some (Inl (New ''proposal is a duplicate of existing deal; if you would like to create a duplicate, add the --allow-duplicates flag''),
                 smc\<lparr>calls := calls smc @
                   [CallGetFileSize data, CallMinerGetAsk miner askID, CallChainBlockHeight,
                    CallConfigGet ''wallet.defaultAddress'', CallMinerGetOwnerAddress miner]\<rparr>)"
  using assms by (simp add: ProposeDeal_def called_def Let_def Errors_ErrDuplicateDeal)

theorem ProposeDeal_rejects_duplicate_witness:
  "ProposeDeal exampleEnv oneDealClient (Address ''miner'') (Cid ''data'') 7 3 False =
     Some (Inl (New ''proposal is a duplicate of existing deal; if you would like to create a duplicate, add the --allow-duplicates flag''),
           oneDealClient\<lparr>calls :=
             [CallGetFileSize (Cid ''data''), CallMinerGetAsk (Address ''miner'') 7,
              CallChainBlockHeight, CallConfigGet ''wallet.defaultAddress'',
              CallMinerGetOwnerAddress (Address ''miner'')]\<rparr>)"
proof -
  have "ProposeDeal exampleEnv oneDealClient (Address ''miner'') (Cid ''data'') 7 3 False =
     Some (Inl (New ''proposal is a duplicate of existing deal; if you would like to create a duplicate, add the --allow-duplicates flag''),
           oneDealClient\<lparr>calls := calls oneDealClient @
             [CallGetFileSize (Cid ''data''), CallMinerGetAsk (Address ''miner'') 7,
              CallChainBlockHeight, CallConfigGet ''wallet.defaultAddress'',
              CallMinerGetOwnerAddress (Address ''miner'')]\<rparr>)"
    by (rule ProposeDeal_rejects_duplicate
          [where size' = 5 and ask = "\<lparr>Price = 10\<rparr>" and chainHeight = 100
             and fromAddress = "Address ''client''" and minerOwner = "Address ''owner''"
             and proposalCid = "Cid ''h''" and d = exampleDeal and proposal = exampleProposal])
       (simp_all add: exampleEnv_def oneDealClient_def exampleProposal_def Empty_def
          NewBytesAmount_def MulBigInt_def NewInt_def int64_def)
  then show ?thesis
    by (simp add: oneDealClient_def)
qed



subsection \<open>The miner's response\<close>

text \<open>
  C4. Take a \<open>ProposeDeal\<close> call that receives a response: the lookups succeed, the
  proposal is not refused as a duplicate, the loop yields the proposal and its cid, the
  payments are created and the request returns \<open>response\<close>. The calls made are the
  eight up to the request. If the state is Accepted, the deal is recorded: \<open>deals\<close>
  gains the entry for the proposal cid, which was not a key, with the miner, the
  proposal sent and the response; the deal is serialised and \<open>Put\<close> under the key of
  the proposal cid, the datastore is the one \<open>Put\<close> leaves, and the call returns the
  response when \<open>Put\<close> succeeds, the wrapped error of \<open>Put\<close> or of \<open>DumpObject\<close>
  otherwise. If the state is Rejected or Failed, the call returns "deal rejected: " or
  "deal failed: " followed by the miner's message, wrapped in "response check failed".
  If it is any other state, the call returns "invalid proposal response: " followed by
  the state, wrapped likewise. In these three cases \<open>deals\<close> and the datastore are
  unchanged.
\<close>

theorem ProposeDeal_response_gating:
  assumes "GetFileSize E data = Inr size'"
    and "MinerGetAsk E miner askID = Inr ask"
    and "ChainBlockHeight E = Inr chainHeight"
    and "ConfigGet E ''wallet.defaultAddress'' = Inr (AddressValue fromAddress)"
    and "\<not> Empty fromAddress"
    and "MinerGetOwnerAddress E miner = Inr minerOwner"
    and "built =
           \<lparr>PieceRef = data, Size = NewBytesAmount size',
            TotalPrice = MulBigInt (Price ask) (NewInt (int64 (size' * duration))),
            Duration = duration, MinerAddress = miner,
            Payment = \<lparr>Channel = 0, ChannelMsgCid = [], Vouchers = []\<rparr>,
            LastDuplicate = []\<rparr>"
    and "ToCid E built = Inr builtCid"
    and "deals smc builtCid = None \<or> allowDuplicates"
    and loop: "duplicateLoop E (deals smc) (deals smc builtCid \<noteq> None) built builtCid =
           Some (Inr (resolved, proposalCid))"
    and "params =
           \<lparr>From = fromAddress, To = minerOwner,
            Value = MulBigInt (Price ask) (NewInt (int64 (size' * duration))),
            PaymentDuration = duration, PaymentInterval = VoucherInterval,
            ChannelExpiry = chainHeight + NewBlockHeight (duration + ChannelExpiryBuffer),
            GasPrice = NewInt CreateChannelGasPrice, GasLimit = CreateChannelGasLimit\<rparr>"
    and "CreatePayments E params = Inr cpResp"
    and "proposal = resolved\<lparr>Payment := (Payment resolved)\<lparr>
                       Channel := ReturnChannel cpResp,
                       ChannelMsgCid := String E (ReturnChannelMsgCid cpResp),
                       Vouchers := ReturnVouchers cpResp\<rparr>\<rparr>"
    and "MinerGetPeerID E miner = Inr pid"
    and "MakeProtocolRequest E makeDealProtocol pid (ProposalRequest proposal) = Inr response"
    and "storageDeal = \<lparr>Miner = miner, Proposal = proposal, Response = response\<rparr>"
    and "key = KeyWithNamespaces [ClientDatastorePrefix E, String E proposalCid]"
  shows "\<exists>r smc'. ProposeDeal E smc miner data askID duration allowDuplicates = Some (r, smc') \<and>
           calls smc' = calls smc @
             [CallGetFileSize data, CallMinerGetAsk miner askID, CallChainBlockHeight,
              CallConfigGet ''wallet.defaultAddress'', CallMinerGetOwnerAddress miner,
              CallCreatePayments params, CallMinerGetPeerID miner,
              CallMakeProtocolRequest makeDealProtocol pid (ProposalRequest proposal)] \<and>
           (case State response of
              Accepted \<Rightarrow>
                deals smc proposalCid = None \<and>
                deals smc' = (deals smc)(proposalCid \<mapsto> storageDeal) \<and>
                (case DumpObject E storageDeal of
                   Inl err \<Rightarrow>
                     r = Inl (Wrap (Wrap err ''could not marshal storageDeal'')
                                ''failed to track response'')
                     \<and> dealsDs smc' = dealsDs smc
                 | Inr datum \<Rightarrow>
                     dealsDs smc' = snd (Put E (dealsDs smc) key datum) \<and>
                     (case fst (Put E (dealsDs smc) key datum) of
                        Some err \<Rightarrow>
                          r = Inl (Wrap (Wrap err
                                ''could not save client deal to disk, in-memory deals differ from persisted deals!'')
                                ''failed to track response'')
                      | None \<Rightarrow> r = Inr response))
            | Rejected \<Rightarrow>
                r = Inl (Wrap (New (''deal rejected: '' @ Message response)) ''response check failed'')
                \<and> deals smc' = deals smc \<and> dealsDs smc' = dealsDs smc
            | Failed \<Rightarrow>
                r = Inl (Wrap (New (''deal failed: '' @ Message response)) ''response check failed'')
                \<and> deals smc' = deals smc \<and> dealsDs smc' = dealsDs smc
            | _ \<Rightarrow>
                r = Inl (Wrap (New (''invalid proposal response: '' @ StateString E (State response)))
                          ''response check failed'')
                \<and> deals smc' = deals smc \<and> dealsDs smc' = dealsDs smc)"
proof -
  have fresh: "deals smc proposalCid = None"
    using loop by (rule duplicateLoop_exit)
  show ?thesis
  proof (cases "State response")
    case Accepted
    then show ?thesis
      using assms fresh
      by (auto simp: ProposeDeal_def called_def Let_def checkDealResponse_def
          recordResponse_def saveDeal_def split: sum.splits option.splits prod.splits)
  next
    case Rejected
    then show ?thesis
      using assms by (auto simp: ProposeDeal_def called_def Let_def checkDealResponse_def)
  next
    case Failed
    then show ?thesis
      using assms by (auto simp: ProposeDeal_def called_def Let_def checkDealResponse_def)
  next
    case Unknown
    then show ?thesis
      using assms by (auto simp: ProposeDeal_def called_def Let_def checkDealResponse_def)
  next
    case (Invalid n)
    then show ?thesis
      using assms by (auto simp: ProposeDeal_def called_def Let_def checkDealResponse_def)
  qed
qed

theorem ProposeDeal_response_gating_witness:
  "(\<exists>smc'. ProposeDeal (respondingEnv Accepted) emptyClient (Address ''miner'') (Cid ''data'')
                 7 3 False =
               Some (Inr \<lparr>State = Accepted, Message = ''no space'', ProposalCid = Cid ''h''\<rparr>, smc')
      \<and> deals smc' = [Cid ''h'' \<mapsto>
           \<lparr>Miner = Address ''miner'',
            Proposal = exampleProposal
              \<lparr>Payment := \<lparr>Channel = 1, ChannelMsgCid = ''bm'', Vouchers = [''v1'']\<rparr>\<rparr>,
            Response = \<lparr>State = Accepted, Message = ''no space'', ProposalCid = Cid ''h''\<rparr>\<rparr>]
      \<and> dealsDs smc' = [KeyWithNamespaces [''client'', ''bh''] \<mapsto> ''cbor''])
   \<and> (\<exists>smc'. ProposeDeal fullDiskAcceptingEnv emptyClient (Address ''miner'') (Cid ''data'')
                 7 3 False =
               Some (Inl (Wrap (Wrap (New ''disk full'')
                   ''could not save client deal to disk, in-memory deals differ from persisted deals!'')
                   ''failed to track response''), smc')
      \<and> deals smc' (Cid ''h'') \<noteq> None \<and> dealsDs smc' = Map.empty)
   \<and> (\<exists>smc'. ProposeDeal (respondingEnv Rejected) emptyClient (Address ''miner'') (Cid ''data'')
                 7 3 False =
               Some (Inl (Wrap (New ''deal rejected: no space'') ''response check failed''), smc')
      \<and> deals smc' = Map.empty \<and> dealsDs smc' = Map.empty)
   \<and> (\<exists>smc'. ProposeDeal (respondingEnv Failed) emptyClient (Address ''miner'') (Cid ''data'')
                 7 3 False =
               Some (Inl (Wrap (New ''deal failed: no space'') ''response check failed''), smc')
      \<and> deals smc' = Map.empty \<and> dealsDs smc' = Map.empty)
   \<and> (\<exists>smc'. ProposeDeal (respondingEnv Unknown) emptyClient (Address ''miner'') (Cid ''data'')
                 7 3 False =
               Some (Inl (Wrap (New ''invalid proposal response: state'') ''response check failed''),
                     smc')
      \<and> deals smc' = Map.empty \<and> dealsDs smc' = Map.empty)
   \<and> (\<exists>smc'. ProposeDeal (respondingEnv (Invalid 9)) emptyClient (Address ''miner'')
                 (Cid ''data'') 7 3 False =
               Some (Inl (Wrap (New ''invalid proposal response: state'') ''response check failed''),
                     smc')
      \<and> deals smc' = Map.empty \<and> dealsDs smc' = Map.empty)"
proof -
  let ?sent = "exampleProposal
                 \<lparr>Payment := \<lparr>Channel = 1, ChannelMsgCid = ''bm'', Vouchers = [''v1'']\<rparr>\<rparr>"
  let ?params = "\<lparr>From = Address ''client'', To = Address ''owner'', Value = 150,
                   PaymentDuration = 3, PaymentInterval = 1000, ChannelExpiry = 2103,
                   GasPrice = 0, GasLimit = 300\<rparr>"
  let ?key = "KeyWithNamespaces [''client'', ''bh'']"
  have inst: "\<exists>r smc'. ProposeDeal E emptyClient (Address ''miner'') (Cid ''data'')
                 7 3 False = Some (r, smc') \<and>
           calls smc' = calls emptyClient @
             [CallGetFileSize (Cid ''data''), CallMinerGetAsk (Address ''miner'') 7,
              CallChainBlockHeight, CallConfigGet ''wallet.defaultAddress'',
              CallMinerGetOwnerAddress (Address ''miner''),
              CallCreatePayments ?params, CallMinerGetPeerID (Address ''miner''),
              CallMakeProtocolRequest makeDealProtocol (PeerID ''peer'') (ProposalRequest ?sent)] \<and>
           (case State \<lparr>State = st, Message = ''no space'', ProposalCid = Cid ''h''\<rparr> of
              Accepted \<Rightarrow>
                deals emptyClient (Cid ''h'') = None \<and>
                deals smc' = (deals emptyClient)(Cid ''h'' \<mapsto>
                  \<lparr>Miner = Address ''miner'', Proposal = ?sent,
                   Response = \<lparr>State = st, Message = ''no space'', ProposalCid = Cid ''h''\<rparr>\<rparr>) \<and>
                (case DumpObject E
                        \<lparr>Miner = Address ''miner'', Proposal = ?sent,
                         Response = \<lparr>State = st, Message = ''no space'', ProposalCid = Cid ''h''\<rparr>\<rparr> of
                   Inl err \<Rightarrow>
                     r = Inl (Wrap (Wrap err ''could not marshal storageDeal'')
                                ''failed to track response'')
                     \<and> dealsDs smc' = dealsDs emptyClient
                 | Inr datum \<Rightarrow>
                     dealsDs smc' = snd (Put E (dealsDs emptyClient) ?key datum) \<and>
                     (case fst (Put E (dealsDs emptyClient) ?key datum) of
                        Some err \<Rightarrow>
                          r = Inl (Wrap (Wrap err
                                ''could not save client deal to disk, in-memory deals differ from persisted deals!'')
                                ''failed to track response'')
                      | None \<Rightarrow>
                          r = Inr \<lparr>State = st, Message = ''no space'', ProposalCid = Cid ''h''\<rparr>))
            | Rejected \<Rightarrow>
                r = Inl (Wrap (New (''deal rejected: '' @
                      Message \<lparr>State = st, Message = ''no space'', ProposalCid = Cid ''h''\<rparr>))
                    ''response check failed'')
                \<and> deals smc' = deals emptyClient \<and> dealsDs smc' = dealsDs emptyClient
            | Failed \<Rightarrow>
                r = Inl (Wrap (New (''deal failed: '' @
                      Message \<lparr>State = st, Message = ''no space'', ProposalCid = Cid ''h''\<rparr>))
                    ''response check failed'')
                \<and> deals smc' = deals emptyClient \<and> dealsDs smc' = dealsDs emptyClient
            | _ \<Rightarrow>
                r = Inl (Wrap (New (''invalid proposal response: '' @
                      StateString E
                        (State \<lparr>State = st, Message = ''no space'', ProposalCid = Cid ''h''\<rparr>)))
                    ''response check failed'')
                \<and> deals smc' = deals emptyClient \<and> dealsDs smc' = dealsDs emptyClient)"
    if "E = respondingEnv st \<or> E = fullDiskAcceptingEnv \<and> st = Accepted" for E st
    by (rule ProposeDeal_response_gating
          [where size' = 5 and ask = "\<lparr>Price = 10\<rparr>" and chainHeight = 100
             and fromAddress = "Address ''client''" and minerOwner = "Address ''owner''"
             and built = exampleProposal and builtCid = "Cid ''h''"
             and resolved = exampleProposal
             and cpResp = "\<lparr>ReturnChannel = 1, ReturnChannelMsgCid = Cid ''m'',
                             ReturnVouchers = [''v1'']\<rparr>"])
       (use that in \<open>auto simp: fullDiskAcceptingEnv_def respondingEnv_def exampleEnv_def
          emptyClient_def exampleProposal_def
          Empty_def NewBytesAmount_def MulBigInt_def NewInt_def int64_def NewBlockHeight_def
          VoucherInterval_def ChannelExpiryBuffer_def CreateChannelGasPrice_def
          CreateChannelGasLimit_def duplicateLoop.simps\<close>)
  have unfolded: "dealsDs emptyClient = Map.empty" "deals emptyClient = Map.empty"
    "String (respondingEnv st) (Cid ''h'') = ''bh''" "String fullDiskAcceptingEnv (Cid ''h'') = ''bh''"
    "DumpObject (respondingEnv st) d = Inr ''cbor''" "DumpObject fullDiskAcceptingEnv d = Inr ''cbor''"
    "Put (respondingEnv st) ds k v = (None, ds(k \<mapsto> v))"
    "Put fullDiskAcceptingEnv ds k v = (Some (New ''disk full''), ds)"
    "StateString (respondingEnv st) x = ''state''" for st d ds k v x
    by (simp_all add: fullDiskAcceptingEnv_def respondingEnv_def exampleEnv_def emptyClient_def)
  have accepted: "\<exists>smc'. ProposeDeal (respondingEnv Accepted) emptyClient (Address ''miner'')
                 (Cid ''data'') 7 3 False =
               Some (Inr \<lparr>State = Accepted, Message = ''no space'', ProposalCid = Cid ''h''\<rparr>, smc')
      \<and> deals smc' = [Cid ''h'' \<mapsto>
           \<lparr>Miner = Address ''miner'', Proposal = ?sent,
            Response = \<lparr>State = Accepted, Message = ''no space'', ProposalCid = Cid ''h''\<rparr>\<rparr>]
      \<and> dealsDs smc' = [?key \<mapsto> ''cbor'']"
    using inst [of "respondingEnv Accepted" Accepted] by (auto simp: unfolded)
  have full: "\<exists>smc'. ProposeDeal fullDiskAcceptingEnv emptyClient (Address ''miner'') (Cid ''data'')
                 7 3 False =
               Some (Inl (Wrap (Wrap (New ''disk full'')
                   ''could not save client deal to disk, in-memory deals differ from persisted deals!'')
                   ''failed to track response''), smc')
      \<and> deals smc' (Cid ''h'') \<noteq> None \<and> dealsDs smc' = Map.empty"
    using inst [of fullDiskAcceptingEnv Accepted] by (auto simp: unfolded)
  have rejected: "\<exists>smc'. ProposeDeal (respondingEnv Rejected) emptyClient (Address ''miner'')
                 (Cid ''data'') 7 3 False =
               Some (Inl (Wrap (New ''deal rejected: no space'') ''response check failed''), smc')
      \<and> deals smc' = Map.empty \<and> dealsDs smc' = Map.empty"
    using inst [of "respondingEnv Rejected" Rejected] by (auto simp: unfolded)
  have failed: "\<exists>smc'. ProposeDeal (respondingEnv Failed) emptyClient (Address ''miner'')
                 (Cid ''data'') 7 3 False =
               Some (Inl (Wrap (New ''deal failed: no space'') ''response check failed''), smc')
      \<and> deals smc' = Map.empty \<and> dealsDs smc' = Map.empty"
    using inst [of "respondingEnv Failed" Failed] by (auto simp: unfolded)
  have unknown: "\<exists>smc'. ProposeDeal (respondingEnv Unknown) emptyClient (Address ''miner'')
                 (Cid ''data'') 7 3 False =
               Some (Inl (Wrap (New ''invalid proposal response: state'') ''response check failed''),
                     smc')
      \<and> deals smc' = Map.empty \<and> dealsDs smc' = Map.empty"
    using inst [of "respondingEnv Unknown" Unknown] by (auto simp: unfolded)
  have invalid: "\<exists>smc'. ProposeDeal (respondingEnv (Invalid 9)) emptyClient (Address ''miner'')
                 (Cid ''data'') 7 3 False =
               Some (Inl (Wrap (New ''invalid proposal response: state'') ''response check failed''),
                     smc')
      \<and> deals smc' = Map.empty \<and> dealsDs smc' = Map.empty"
    using inst [of "respondingEnv (Invalid 9)" "Invalid 9"] by (auto simp: unfolded)
  show ?thesis
    using accepted full rejected failed unknown invalid by blast
qed

subsection \<open>The total price\<close>

text \<open>
  C1. The source multiplies \<open>size * duration\<close> as \<open>uint64\<close> values and only then makes
  the product a big integer. For a file of \<open>2 ^ 32\<close> bytes, a duration of \<open>2 ^ 32\<close>
  heights and a price of 10, the product wraps around to 0: \<open>ProposeDeal\<close> succeeds and
  records a proposal whose total price is 0, where price times size times duration is
  184467440737095516160.
\<close>

theorem ProposeDeal_totalPrice_wraps:
  "\<exists>smc'. ProposeDeal largeFileEnv emptyClient (Address ''miner'') (Cid ''data'') 7 4294967296 False =
             Some (Inr exampleResponse, smc')
     \<and> map_option (TotalPrice \<circ> Proposal) (deals smc' (Cid ''h'')) = Some 0
     \<and> Price \<lparr>Price = 10\<rparr> * uint (4294967296 :: uint64) * uint (4294967296 :: uint64) = 184467440737095516160"
  by (simp add: ProposeDeal_def largeFileEnv_def exampleEnv_def emptyClient_def exampleResponse_def
      called_def Let_def Empty_def duplicateLoop.simps checkDealResponse_def recordResponse_def
      saveDeal_def MulBigInt_def NewInt_def int64_def NewBytesAmount_def)

text \<open>
  At this input the wallet address is set, so the call does build the proposal; the
  product that the source converts with \<open>int64\<close> is 0.
\<close>

theorem ProposeDeal_totalPrice_wraps_witness:
  "ConfigGet largeFileEnv ''wallet.defaultAddress'' = Inr (AddressValue (Address ''client''))
   \<and> \<not> Empty (Address ''client'')
   \<and> int64 (4294967296 * 4294967296) = 0
   \<and> ProposeDeal largeFileEnv emptyClient (Address ''miner'') (Cid ''data'') 7 4294967296 False
       \<noteq> None"
  using ProposeDeal_totalPrice_wraps
  by (auto simp: largeFileEnv_def exampleEnv_def Empty_def int64_def)

subsection \<open>Loading the stored deals\<close>

text \<open>
  C2. When \<open>DealsLs\<close> delivers two stored deals and then nil, \<open>NewClient\<close> succeeds and
  its map holds the first deal only: the second deal that was delivered, stored under
  the cid \<open>second\<close> of its response, is not in the map.
\<close>

theorem loadDeals_restores_one_deal:
  "\<exists>smc. NewClient twoDealsEnv Map.empty = Inr smc
     \<and> deals smc (Cid ''h'') = Some exampleDeal
     \<and> deals smc (Cid ''second'') = None
     \<and> DealsLs twoDealsEnv = ([exampleDeal, secondDeal], None)
     \<and> ProposalCid (Response secondDeal) = Cid ''second''"
  by (simp add: NewClient_def loadDeals_def twoDealsEnv_def exampleEnv_def called_def Let_def
      exampleDeal_def secondDeal_def exampleResponse_def)

subsection \<open>The deal store\<close>

text \<open>
  C5. \<open>deals\<close> is a map, so it holds at most one deal under a proposal cid.
  \<open>recordResponse\<close> on a cid that is already a key returns the error
  "deal [cid] is already in progress" and changes nothing. An entry that is in the map
  is still there, unchanged, after \<open>recordResponse\<close>, \<open>saveDeal\<close>, \<open>QueryDeal\<close>,
  \<open>LoadVouchersForDeal\<close> and after every \<open>ProposeDeal\<close> that returns. (\<open>loadDeals\<close>
  runs only in \<open>NewClient\<close>, on the empty map of the client being made.)
\<close>

theorem deals_never_overwritten:
  "(deals smc c = Some d \<longrightarrow>
      recordResponse E smc resp miner p c =
        (Some (New (''deal ['' @ String E c @ ''] is already in progress'')), smc))
   \<and> (deals smc k = Some d \<longrightarrow>
        deals (snd (recordResponse E smc resp miner p c)) k = Some d
      \<and> deals (snd (saveDeal E smc c)) k = Some d
      \<and> deals (snd (QueryDeal E smc c)) k = Some d
      \<and> deals (snd (LoadVouchersForDeal E smc c)) k = Some d
      \<and> (\<forall>r smc'. ProposeDeal E smc miner data askID duration allowDuplicates = Some (r, smc') \<longrightarrow>
            deals smc' k = Some d))"
proof (intro conjI impI allI)
  assume "deals smc c = Some d"
  then show "recordResponse E smc resp miner p c =
        (Some (New (''deal ['' @ String E c @ ''] is already in progress'')), smc)"
    by (simp add: recordResponse_def)
next
  assume "deals smc k = Some d"
  then show "deals (snd (recordResponse E smc resp miner p c)) k = Some d"
    by (rule recordResponse_keeps)
next
  assume "deals smc k = Some d"
  then show "deals (snd (saveDeal E smc c)) k = Some d"
    by (simp add: saveDeal_def Let_def split: option.splits sum.splits prod.splits)
next
  assume "deals smc k = Some d"
  then show "deals (snd (QueryDeal E smc c)) k = Some d"
    by (simp add: QueryDeal_def minerForProposal_def called_def Let_def
        split: option.splits sum.splits)
next
  assume "deals smc k = Some d"
  then show "deals (snd (LoadVouchersForDeal E smc c)) k = Some d"
    by (simp add: LoadVouchersForDeal_def called_def Let_def split: list.splits prod.splits)
next
  fix r smc'
  assume "deals smc k = Some d"
    and "ProposeDeal E smc miner data askID duration allowDuplicates = Some (r, smc')"
  then show "deals smc' k = Some d"
    using ProposeDeal_keeps by blast
qed

theorem deals_never_overwritten_witness:
  "recordResponse exampleEnv oneDealClient exampleResponse (Address ''miner'') exampleProposal
       (Cid ''h'') =
     (Some (New ''deal [bh] is already in progress''), oneDealClient)
   \<and> deals (snd (QueryDeal exampleEnv oneDealClient (Cid ''h''))) (Cid ''h'') = Some exampleDeal
   \<and> (\<exists>r smc'. ProposeDeal exampleEnv oneDealClient (Address ''miner'') (Cid ''data'') 7 3 True =
                  Some (r, smc')
         \<and> deals smc' (Cid ''h'') = Some exampleDeal)"
proof -
  have stored: "deals oneDealClient (Cid ''h'') = Some exampleDeal"
    by (simp add: oneDealClient_def)
  have "\<exists>r smc'. ProposeDeal exampleEnv oneDealClient (Address ''miner'') (Cid ''data'') 7 3 True =
                   Some (r, smc')"
    by (simp add: ProposeDeal_def exampleEnv_def oneDealClient_def called_def Let_def Empty_def
        duplicateLoop.simps checkDealResponse_def recordResponse_def saveDeal_def)
  then obtain r smc' where
    run: "ProposeDeal exampleEnv oneDealClient (Address ''miner'') (Cid ''data'') 7 3 True =
            Some (r, smc')"
    by blast
  have all: "recordResponse exampleEnv oneDealClient exampleResponse (Address ''miner'')
          exampleProposal (Cid ''h'') =
        (Some (New (''deal ['' @ String exampleEnv (Cid ''h'') @ ''] is already in progress'')),
         oneDealClient)
      \<and> deals (snd (QueryDeal exampleEnv oneDealClient (Cid ''h''))) (Cid ''h'') = Some exampleDeal
      \<and> deals smc' (Cid ''h'') = Some exampleDeal"
    using deals_never_overwritten
      [where smc = oneDealClient and c = "Cid ''h''" and d = exampleDeal and E = exampleEnv
         and resp = exampleResponse and miner = "Address ''miner''" and p = exampleProposal
         and k = "Cid ''h''" and data = "Cid ''data''" and askID = 7 and duration = 3
         and allowDuplicates = True]
      stored run
    by blast
  have "String exampleEnv (Cid ''h'') = ''bh''"
    by (simp add: exampleEnv_def)
  then show ?thesis
    using all run by auto
qed

text \<open>
  C8. When \<open>recordResponse\<close> inserts the deal (the cid was not a key, and the deal
  serialises) and the datastore's \<open>Put\<close> then fails, the caller gets the error of
  \<open>Put\<close> wrapped in "could not save client deal to disk, in-memory deals differ from
  persisted deals!", and the map \<open>deals\<close> still has the entry just inserted.
\<close>

theorem recordResponse_save_failure:
  assumes "deals smc proposalCid = None"
    and "DumpObject E \<lparr>Miner = miner, Proposal = p, Response = resp\<rparr> = Inr datum"
    and "Put E (dealsDs smc) (KeyWithNamespaces [ClientDatastorePrefix E, String E proposalCid])
           datum = (Some err, ds)"
  shows "fst (recordResponse E smc resp miner p proposalCid) =
           Some (Wrap err
             ''could not save client deal to disk, in-memory deals differ from persisted deals!'')
         \<and> deals (snd (recordResponse E smc resp miner p proposalCid)) =
             (deals smc)(proposalCid \<mapsto> \<lparr>Miner = miner, Proposal = p, Response = resp\<rparr>)"
  using assms by (simp add: recordResponse_def saveDeal_def)

theorem recordResponse_save_failure_witness:
  "fst (recordResponse fullDiskEnv emptyClient exampleResponse (Address ''miner'')
          exampleProposal (Cid ''h'')) =
     Some (Wrap (New ''disk full'')
       ''could not save client deal to disk, in-memory deals differ from persisted deals!'')
   \<and> deals (snd (recordResponse fullDiskEnv emptyClient exampleResponse (Address ''miner'')
          exampleProposal (Cid ''h''))) (Cid ''h'') = Some exampleDeal"
proof -
  have "fst (recordResponse fullDiskEnv emptyClient exampleResponse (Address ''miner'')
          exampleProposal (Cid ''h'')) =
     Some (Wrap (New ''disk full'')
       ''could not save client deal to disk, in-memory deals differ from persisted deals!'')
   \<and> deals (snd (recordResponse fullDiskEnv emptyClient exampleResponse (Address ''miner'')
          exampleProposal (Cid ''h''))) =
       (deals emptyClient)(Cid ''h'' \<mapsto>
          \<lparr>Miner = Address ''miner'', Proposal = exampleProposal, Response = exampleResponse\<rparr>)"
    by (rule recordResponse_save_failure [where datum = "''cbor''" and ds = Map.empty])
       (simp_all add: fullDiskEnv_def exampleEnv_def emptyClient_def)
  then show ?thesis
    by (simp add: exampleDeal_def)
qed

subsection \<open>Querying a deal\<close>

text \<open>
  C9. \<open>QueryDeal\<close> leaves the deal store as it found it, whatever it returns: the map
  \<open>deals\<close> and the datastore \<open>dealsDs\<close> of the client it returns are those of the client
  it was given.
\<close>

theorem QueryDeal_frame:
  "deals (snd (QueryDeal E smc proposalCid)) = deals smc
   \<and> dealsDs (snd (QueryDeal E smc proposalCid)) = dealsDs smc"
  by (simp add: QueryDeal_def minerForProposal_def called_def Let_def
      split: option.splits sum.splits)

text \<open>
  C10. \<open>QueryDeal\<close> on a cid that is not a key of \<open>deals\<close> returns the error
  "no such proposal by cid: " followed by the cid, and the client it returns is the one
  it was given: no call was added to \<open>calls\<close>, so neither \<open>MinerGetPeerID\<close> nor
  \<open>MakeProtocolRequest\<close> was invoked.
\<close>

theorem QueryDeal_unknown_proposal:
  assumes "deals smc proposalCid = None"
  shows "QueryDeal E smc proposalCid =
           (Inl (New (''no such proposal by cid: '' @ String E proposalCid)), smc)"
  using assms by (simp add: QueryDeal_def minerForProposal_def)

theorem QueryDeal_unknown_proposal_witness:
  "QueryDeal exampleEnv oneDealClient (Cid ''other'') =
     (Inl (New ''no such proposal by cid: bother''), oneDealClient)"
proof -
  have "QueryDeal exampleEnv oneDealClient (Cid ''other'') =
     (Inl (New (''no such proposal by cid: '' @ String exampleEnv (Cid ''other''))), oneDealClient)"
    by (rule QueryDeal_unknown_proposal) (simp add: oneDealClient_def)
  then show ?thesis
    by (simp add: exampleEnv_def)
qed

subsection \<open>The protocol exchange\<close>

text \<open>
  C7. \<open>ClientNodeImpl.MakeProtocolRequest\<close> classifies its failures. When \<open>NewStream\<close>
  fails with \<open>multistream.ErrNotSupported\<close> the error is "could not establish connection
  with peer. Peer does not support protocol"; when it fails with any other error, that
  error wrapped in "failed to establish connection with the peer"; when writing the
  request fails, the error wrapped in "failed to write request"; when reading the
  response fails, the error wrapped in "failed to read response".
\<close>

theorem MakeProtocolRequest_error_classes:
  "(NewStream cni peer protocol = Inl ErrNotSupported \<longrightarrow>
      ClientNodeImpl_MakeProtocolRequest cni protocol peer req =
        Inl (New ''could not establish connection with peer. Peer does not support protocol''))
   \<and> (\<forall>err. NewStream cni peer protocol = Inl err \<and> err \<noteq> ErrNotSupported \<longrightarrow>
      ClientNodeImpl_MakeProtocolRequest cni protocol peer req =
        Inl (Wrap err ''failed to establish connection with the peer''))
   \<and> (\<forall>s err. NewStream cni peer protocol = Inr s \<and> WriteMsg cni s req = Some err \<longrightarrow>
      ClientNodeImpl_MakeProtocolRequest cni protocol peer req =
        Inl (Wrap err ''failed to write request''))
   \<and> (\<forall>s err. NewStream cni peer protocol = Inr s \<and> WriteMsg cni s req = None
        \<and> ReadMsg cni s = Inl err \<longrightarrow>
      ClientNodeImpl_MakeProtocolRequest cni protocol peer req =
        Inl (Wrap err ''failed to read response''))"
  by (simp add: ClientNodeImpl_MakeProtocolRequest_def)

theorem MakeProtocolRequest_error_classes_witness:
  "ClientNodeImpl_MakeProtocolRequest unsupportedNode makeDealProtocol (PeerID ''peer'')
       (ProposalRequest exampleProposal) =
     Inl (New ''could not establish connection with peer. Peer does not support protocol'')
   \<and> ClientNodeImpl_MakeProtocolRequest unreachableNode makeDealProtocol (PeerID ''peer'')
       (ProposalRequest exampleProposal) =
     Inl (Wrap (New ''dial backoff'') ''failed to establish connection with the peer'')
   \<and> ClientNodeImpl_MakeProtocolRequest brokenWriteNode makeDealProtocol (PeerID ''peer'')
       (ProposalRequest exampleProposal) =
     Inl (Wrap (New ''stream reset'') ''failed to write request'')
   \<and> ClientNodeImpl_MakeProtocolRequest brokenReadNode queryDealProtocol (PeerID ''peer'')
       (QueryRequestMsg \<lparr>QueryCid = Cid ''h''\<rparr>) =
     Inl (Wrap (New ''unexpected EOF'') ''failed to read response'')"
proof (intro conjI)
  have "NewStream unsupportedNode (PeerID ''peer'') makeDealProtocol = Inl ErrNotSupported"
    by (simp add: unsupportedNode_def)
  then show "ClientNodeImpl_MakeProtocolRequest unsupportedNode makeDealProtocol (PeerID ''peer'')
       (ProposalRequest exampleProposal) =
     Inl (New ''could not establish connection with peer. Peer does not support protocol'')"
    using MakeProtocolRequest_error_classes
      [where cni = unsupportedNode and peer = "PeerID ''peer''" and protocol = makeDealProtocol
         and req = "ProposalRequest exampleProposal"]
    by blast
next
  have "NewStream unreachableNode (PeerID ''peer'') makeDealProtocol = Inl (New ''dial backoff'')
        \<and> New ''dial backoff'' \<noteq> ErrNotSupported"
    by (simp add: unreachableNode_def)
  then show "ClientNodeImpl_MakeProtocolRequest unreachableNode makeDealProtocol (PeerID ''peer'')
       (ProposalRequest exampleProposal) =
     Inl (Wrap (New ''dial backoff'') ''failed to establish connection with the peer'')"
    using MakeProtocolRequest_error_classes
      [where cni = unreachableNode and peer = "PeerID ''peer''" and protocol = makeDealProtocol
         and req = "ProposalRequest exampleProposal"]
    by blast
next
  have "NewStream brokenWriteNode (PeerID ''peer'') makeDealProtocol = Inr 1
        \<and> WriteMsg brokenWriteNode 1 (ProposalRequest exampleProposal) = Some (New ''stream reset'')"
    by (simp add: brokenWriteNode_def)
  then show "ClientNodeImpl_MakeProtocolRequest brokenWriteNode makeDealProtocol (PeerID ''peer'')
       (ProposalRequest exampleProposal) =
     Inl (Wrap (New ''stream reset'') ''failed to write request'')"
    using MakeProtocolRequest_error_classes
      [where cni = brokenWriteNode and peer = "PeerID ''peer''" and protocol = makeDealProtocol
         and req = "ProposalRequest exampleProposal"]
    by blast
next
  have "NewStream brokenReadNode (PeerID ''peer'') queryDealProtocol = Inr 1
        \<and> WriteMsg brokenReadNode 1 (QueryRequestMsg \<lparr>QueryCid = Cid ''h''\<rparr>) = None
        \<and> ReadMsg brokenReadNode 1 = Inl (New ''unexpected EOF'')"
    by (simp add: brokenReadNode_def)
  then show "ClientNodeImpl_MakeProtocolRequest brokenReadNode queryDealProtocol (PeerID ''peer'')
       (QueryRequestMsg \<lparr>QueryCid = Cid ''h''\<rparr>) =
     Inl (Wrap (New ''unexpected EOF'') ''failed to read response'')"
    using MakeProtocolRequest_error_classes
      [where cni = brokenReadNode and peer = "PeerID ''peer''" and protocol = queryDealProtocol
         and req = "QueryRequestMsg \<lparr>QueryCid = Cid ''h''\<rparr>"]
    by blast
qed

end
